theory Spec2Isabelle
  imports Main "HOL-Library.Sublist"
begin

section \<open>Strings\<close>

text \<open>
  The toolkit works on Python \<open>str\<close> values.  They are modelled as HOL strings: lists of
  8-bit characters, read as the code points 0 to 255 (Latin-1).  On these code points
  \<open>str.lower\<close> acts character by character and never changes the length, so it is a
  \<open>map\<close>.
\<close>

definition upper_chars :: string where
  "upper_chars = ''ABCDEFGHIJKLMNOPQRSTUVWXYZ'' @
     [CHR 0xC0, CHR 0xC1, CHR 0xC2, CHR 0xC3, CHR 0xC4, CHR 0xC5, CHR 0xC6, CHR 0xC7,
      CHR 0xC8, CHR 0xC9, CHR 0xCA, CHR 0xCB, CHR 0xCC, CHR 0xCD, CHR 0xCE, CHR 0xCF,
      CHR 0xD0, CHR 0xD1, CHR 0xD2, CHR 0xD3, CHR 0xD4, CHR 0xD5, CHR 0xD6,
      CHR 0xD8, CHR 0xD9, CHR 0xDA, CHR 0xDB, CHR 0xDC, CHR 0xDD, CHR 0xDE]"

definition lower_chars :: string where
  "lower_chars = ''abcdefghijklmnopqrstuvwxyz'' @
     [CHR 0xE0, CHR 0xE1, CHR 0xE2, CHR 0xE3, CHR 0xE4, CHR 0xE5, CHR 0xE6, CHR 0xE7,
      CHR 0xE8, CHR 0xE9, CHR 0xEA, CHR 0xEB, CHR 0xEC, CHR 0xED, CHR 0xEE, CHR 0xEF,
      CHR 0xF0, CHR 0xF1, CHR 0xF2, CHR 0xF3, CHR 0xF4, CHR 0xF5, CHR 0xF6,
      CHR 0xF8, CHR 0xF9, CHR 0xFA, CHR 0xFB, CHR 0xFC, CHR 0xFD, CHR 0xFE]"

definition lower_char :: "char \<Rightarrow> char" where
  "lower_char c = (case map_of (zip upper_chars lower_chars) c of None \<Rightarrow> c | Some l \<Rightarrow> l)"

text \<open>\<open>s.lower()\<close>\<close>

definition lower :: "string \<Rightarrow> string" where
  "lower s = map lower_char s"

text \<open>\<open>sub in s\<close> on strings: \<open>sub\<close> occurs in \<open>s\<close> as a contiguous run.\<close>

fun contains :: "string \<Rightarrow> string \<Rightarrow> bool" where
  "contains sub [] = (sub = [])"
| "contains sub (c # cs) = (prefix sub (c # cs) \<or> contains sub cs)"

text \<open>
  \<open>s.split(sep)\<close>: the scan runs from the left; where \<open>sep\<close> matches, the piece
  collected so far is closed and the scan goes on behind the match.  Python raises
  \<open>ValueError\<close> for an empty separator; the toolkit only ever passes a fixed non-empty
  one, and the model never matches an empty separator.
\<close>

fun split_from :: "string \<Rightarrow> string \<Rightarrow> string \<Rightarrow> string list" where
  "split_from sep piece [] = [piece]"
| "split_from sep piece (c # cs) =
     (if sep \<noteq> [] \<and> prefix sep (c # cs)
      then piece # split_from sep [] (drop (length sep - 1) cs)
      else split_from sep (piece @ [c]) cs)"

definition str_split :: "string \<Rightarrow> string \<Rightarrow> string list" where
  "str_split s sep = split_from sep [] s"

text \<open>\<open>any(kw in text for kw in kws)\<close>\<close>

definition any_kw_in :: "string list \<Rightarrow> string \<Rightarrow> bool" where
  "any_kw_in kws text = list_ex (\<lambda>kw. contains kw text) kws"

section \<open>Mock LLM client\<close>

definition USER_MARKER :: string where
  "USER_MARKER = ''User input: ''"

definition RETRIEVE_JSON :: string where
  \<open>RETRIEVE_JSON = ''{"action": "retrieve_and_answer"}''\<close>

definition CLASSIFY_JSON :: string where
  \<open>CLASSIFY_JSON = ''{"action": "classify_only"}''\<close>

definition REFUSE_JSON :: string where
  \<open>REFUSE_JSON = ''{"action": "refuse"}''\<close>

text \<open>The first four lines of \<open>MockLLMClient.chat\<close>: the text the keywords are looked up in.\<close>

definition user_part :: "string \<Rightarrow> string" where
  "user_part prompt =
     (if contains USER_MARKER prompt
      then lower (last (str_split prompt USER_MARKER))
      else lower prompt)"

text \<open>\<open>MockLLMClient.chat\<close>\<close>

definition chat :: "string \<Rightarrow> string" where
  "chat prompt =
     (if any_kw_in [''rate'', ''inflation'', ''monetary''] (user_part prompt)
      then RETRIEVE_JSON
      else if any_kw_in [''classify'', ''label'', ''topic''] (user_part prompt)
      then CLASSIFY_JSON
      else REFUSE_JSON)"

section \<open>Tools\<close>

definition REFUSAL_TEXT :: string where
  "REFUSAL_TEXT = ''Refused: I am not authorised to act on this request.''"

definition classify_only :: "string \<Rightarrow> string" where
  "classify_only text =
     (let text_lower = lower text
      in if any_kw_in [''rate'', ''inflation'', ''monetary'', ''central bank''] text_lower
         then ''Topic: Interest Rates & Monetary Policy''
         else if any_kw_in [''loan'', ''mortgage'', ''lending'', ''credit''] text_lower
         then ''Topic: Lending & Credit''
         else if any_kw_in [''stock'', ''equity'', ''market'', ''earning''] text_lower
         then ''Topic: Equity Markets''
         else ''Topic: Out of Domain'')"

text \<open>
  \<open>KNOWLEDGE_BASE\<close> is a dict literal with five distinct keys; iterating \<open>.items()\<close>
  visits them in insertion order, so the dict is an association list in that order.
\<close>

definition KNOWLEDGE_BASE :: "(string \<times> string) list" where
  "KNOWLEDGE_BASE =
     [(''rate'', ''The central bank raised interest rates by 25 basis points to combat persistent inflation.''),
      (''inflation'', ''Inflation remained elevated at 4.2% year-on-year, driven by energy prices.''),
      (''mortgage'', ''Mortgage rates reached a two-decade high, causing home sales to decline 15%.''),
      (''loan'', ''Lending standards tightened as banks responded to higher funding costs.''),
      (''monetary'', ''The dual mandate requires balancing maximum employment with price stability.'')]"

text \<open>The \<open>for\<close> loop of \<open>retrieve_and_answer\<close> with the \<open>return\<close> behind it.\<close>

fun scan_items :: "(string \<times> string) list \<Rightarrow> string \<Rightarrow> string" where
  "scan_items [] question_lower =
     ''Based on retrieved documents: No relevant information found.''"
| "scan_items ((keyword, answer) # items) question_lower =
     (if contains keyword question_lower
      then ''Based on retrieved documents: '' @ answer
      else scan_items items question_lower)"

definition retrieve_and_answer :: "string \<Rightarrow> string" where
  "retrieve_and_answer question = scan_items KNOWLEDGE_BASE (lower question)"

definition refuse :: "unit \<Rightarrow> string" where
  "refuse u = REFUSAL_TEXT"

section \<open>Python values and the JSON decoder\<close>

text \<open>
  \<open>decide_action\<close> hands the chooser's reply to \<open>json.loads\<close> of the standard library and
  works on the Python value that comes back.  Decoded text may hold any code point (a
  \<open>\uXXXX\<close> escape reaches beyond Latin-1), so a decoded string is a list of code points.
  A float keeps the literal it was read from; a dict keeps its pairs in the order they
  were read, a later pair overriding an earlier one with the same key.
\<close>

type_synonym ustr = "nat list"

definition ustr :: "string \<Rightarrow> ustr" where
  "ustr s = map of_char s"

datatype pyval =
    PyNone
  | PyBool bool
  | PyInt int
  | PyFloat string
  | PyStr ustr
  | PyList "pyval list"
  | PyDict "(ustr \<times> pyval) list"

datatype pyexn = JSONDecodeError | AttributeError | TypeError

text \<open>
  The decoder follows \<open>json.decoder\<close> and \<open>json.scanner\<close>: white space is blank, tab, line
  feed and carriage return; strings are scanned in strict mode; numbers follow the
  decoder's number pattern; \<open>NaN\<close>, \<open>Infinity\<close> and \<open>-Infinity\<close> are accepted.  Every
  rejection is the one exception \<open>JSONDecodeError\<close>; positions and messages are left out.
  The interpreter's own limits (recursion depth, the digit limit of integer conversion)
  are not part of the model.  The input is cut into tokens first, then the tokens drive a
  stack of open containers.
\<close>

datatype token = TLBrace | TRBrace | TLBrack | TRBrack | TColon | TComma | TAtom pyval

definition hex_digit :: "char \<Rightarrow> nat option" where
  "hex_digit c = map_of (zip ''0123456789abcdefABCDEF''
     [0, 1, 2, 3, 4, 5, 6, 7, 8, 9, 10, 11, 12, 13, 14, 15, 10, 11, 12, 13, 14, 15]) c"

text \<open>The four hexadecimal digits of a \<open>\uXXXX\<close> escape.\<close>

fun hex4 :: "string \<Rightarrow> nat option" where
  "hex4 [a, b, c, d] =
     (case (hex_digit a, hex_digit b, hex_digit c, hex_digit d) of
        (Some x, Some y, Some z, Some w) \<Rightarrow> Some (((x * 16 + y) * 16 + z) * 16 + w)
      | _ \<Rightarrow> None)"
| "hex4 _ = None"

text \<open>The one-letter escapes: quote, backslash, slash, b, f, n, r, t.\<close>

definition BACKSLASH :: "char \<Rightarrow> nat option" where
  "BACKSLASH e = map_of
     [(CHR 0x22, 0x22), (CHR 0x5C, 0x5C), (CHR ''/'', 0x2F), (CHR ''b'', 0x08),
      (CHR ''f'', 0x0C), (CHR ''n'', 0x0A), (CHR ''r'', 0x0D), (CHR ''t'', 0x09)] e"

definition more :: "nat \<Rightarrow> nat \<Rightarrow> (ustr \<times> nat) option \<Rightarrow> (ustr \<times> nat) option" where
  "more ch k r = (case r of None \<Rightarrow> None | Some (u, n) \<Rightarrow> Some (ch # u, n + k))"

text \<open>
  \<open>scanstring\<close> starts behind the opening quote and returns the decoded text with the
  number of characters read, closing quote included.  A control character, an unknown
  escape, a broken \<open>\uXXXX\<close> and a missing closing quote are errors.  A high surrogate
  followed by an escaped low surrogate is joined into one code point.
\<close>

fun scanstring :: "string \<Rightarrow> (ustr \<times> nat) option" where
  "scanstring [] = None"
| "scanstring (c # cs) =
     (if c = CHR 0x22 then Some ([], 1)
      else if c = CHR 0x5C then
        (case cs of
           [] \<Rightarrow> None
         | e # cs' \<Rightarrow>
             if e \<noteq> CHR ''u'' then
               (case BACKSLASH e of
                  None \<Rightarrow> None
                | Some ch \<Rightarrow> more ch 2 (scanstring cs'))
             else
               (case hex4 (take 4 cs') of
                  None \<Rightarrow> None
                | Some uni \<Rightarrow>
                    if 0xD800 \<le> uni \<and> uni \<le> 0xDBFF \<and> take 2 (drop 4 cs') = [CHR 0x5C, CHR ''u'']
                    then
                      (case hex4 (take 4 (drop 6 cs')) of
                         None \<Rightarrow> None
                       | Some uni2 \<Rightarrow>
                           if 0xDC00 \<le> uni2 \<and> uni2 \<le> 0xDFFF
                           then more (0x10000 + ((uni - 0xD800) * 1024 + (uni2 - 0xDC00))) 12
                                  (scanstring (drop 10 cs'))
                           else more uni 6 (scanstring (drop 4 cs')))
                    else more uni 6 (scanstring (drop 4 cs'))))
      else if (of_char c :: nat) < 0x20 then None
      else more (of_char c) 1 (scanstring cs))"

definition whitespace :: string where
  "whitespace = [CHR '' '', CHR 0x09, CHR 0x0A, CHR 0x0D]"

definition is_digit :: "char \<Rightarrow> bool" where
  "is_digit c = (c \<in> set ''0123456789'')"

definition digit_val :: "char \<Rightarrow> int" where
  "digit_val c = (case hex_digit c of None \<Rightarrow> 0 | Some d \<Rightarrow> int d)"

definition int_of_digits :: "string \<Rightarrow> int" where
  "int_of_digits ds = foldl (\<lambda>n c. 10 * n + digit_val c) 0 ds"

definition parse_int :: "string \<Rightarrow> int" where
  "parse_int s = (if take 1 s = ''-'' then - int_of_digits (drop 1 s) else int_of_digits s)"

text \<open>
  The number pattern: an optional minus, then \<open>0\<close> or a digit run that does not start with
  \<open>0\<close>; an optional fraction (a dot and at least one digit); an optional exponent (\<open>e\<close> or
  \<open>E\<close>, an optional sign, at least one digit).  The result is the three groups of the
  match, an absent group being empty.
\<close>

definition match_number :: "string \<Rightarrow> (string \<times> string \<times> string) option" where
  "match_number s =
     (let sign = (if take 1 s = ''-'' then ''-'' else []);
          s1 = drop (length sign) s;
          ds = takeWhile is_digit s1
      in if ds = [] then None
         else
           let ipart = (if take 1 ds = ''0'' then ''0'' else ds);
               s2 = drop (length ipart) s1;
               fd = takeWhile is_digit (drop 1 s2);
               frac = (if take 1 s2 = ''.'' \<and> fd \<noteq> [] then CHR ''.'' # fd else []);
               s3 = drop (length frac) s2;
               esign = (if take 1 (drop 1 s3) = ''+'' \<or> take 1 (drop 1 s3) = ''-''
                        then take 1 (drop 1 s3) else []);
               ed = takeWhile is_digit (drop (1 + length esign) s3);
               exp = (if (take 1 s3 = ''e'' \<or> take 1 s3 = ''E'') \<and> ed \<noteq> []
                      then take 1 s3 @ esign @ ed else [])
           in Some (sign @ ipart, frac, exp))"

text \<open>A value that is neither a string nor a container, with the number of characters read.\<close>

definition scan_atom :: "string \<Rightarrow> (pyval \<times> nat) option" where
  "scan_atom s =
     (if take 4 s = ''null'' then Some (PyNone, 4)
      else if take 4 s = ''true'' then Some (PyBool True, 4)
      else if take 5 s = ''false'' then Some (PyBool False, 5)
      else
        (case match_number s of
           Some (integer, frac, exp) \<Rightarrow>
             Some (if frac \<noteq> [] \<or> exp \<noteq> [] then PyFloat (integer @ frac @ exp)
                   else PyInt (parse_int integer),
                   length (integer @ frac @ exp))
         | None \<Rightarrow>
             if take 3 s = ''NaN'' then Some (PyFloat ''NaN'', 3)
             else if take 8 s = ''Infinity'' then Some (PyFloat ''Infinity'', 8)
             else if take 9 s = ''-Infinity'' then Some (PyFloat ''-Infinity'', 9)
             else None))"

definition emit :: "token \<Rightarrow> token list option \<Rightarrow> token list option" where
  "emit t r = map_option ((#) t) r"

fun lex :: "string \<Rightarrow> token list option" where
  "lex [] = Some []"
| "lex (c # cs) =
     (if c \<in> set whitespace then lex cs
      else if c = CHR ''{'' then emit TLBrace (lex cs)
      else if c = CHR ''}'' then emit TRBrace (lex cs)
      else if c = CHR ''['' then emit TLBrack (lex cs)
      else if c = CHR '']'' then emit TRBrack (lex cs)
      else if c = CHR '':'' then emit TColon (lex cs)
      else if c = CHR '','' then emit TComma (lex cs)
      else if c = CHR 0x22 then
        (case scanstring cs of
           None \<Rightarrow> None
         | Some (u, n) \<Rightarrow> emit (TAtom (PyStr u)) (lex (drop n cs)))
      else
        (case scan_atom (c # cs) of
           None \<Rightarrow> None
         | Some (v, n) \<Rightarrow> emit (TAtom v) (lex (drop (n - 1) cs))))"

text \<open>
  An open list with the items read so far; an open dict with its pairs, waiting for a key
  or for its end; an open dict whose next key has been read.
\<close>

datatype frame =
    FList "pyval list"
  | FDict "(ustr \<times> pyval) list"
  | FPair "(ustr \<times> pyval) list" ustr

text \<open>
  What may come next: a value; a value or \<open>]\<close> (just behind \<open>[\<close>); a key or \<open>}\<close> (just
  behind \<open>{\<close>); a key (behind a comma in a dict); a colon; a comma or the end of the
  innermost container; nothing, the document being complete.
\<close>

datatype mode = MValue | MFirst | MKeyFirst | MKey | MColon | MAfter | MDone pyval

fun wants_value :: "mode \<Rightarrow> bool" where
  "wants_value MValue = True"
| "wants_value MFirst = True"
| "wants_value _ = False"

fun wants_key :: "mode \<Rightarrow> bool" where
  "wants_key MKeyFirst = True"
| "wants_key MKey = True"
| "wants_key _ = False"

text \<open>A finished value goes to the innermost open container, or is the document.\<close>

fun deliver :: "pyval \<Rightarrow> frame list \<Rightarrow> (mode \<times> frame list) option" where
  "deliver v [] = Some (MDone v, [])"
| "deliver v (FList vs # st) = Some (MAfter, FList (vs @ [v]) # st)"
| "deliver v (FPair ps k # st) = Some (MAfter, FDict (ps @ [(k, v)]) # st)"
| "deliver v (FDict ps # st) = None"

definition step :: "token \<Rightarrow> mode \<times> frame list \<Rightarrow> (mode \<times> frame list) option" where
  "step t s =
     (case s of (m, st) \<Rightarrow>
        (case t of
           TLBrack \<Rightarrow> if wants_value m then Some (MFirst, FList [] # st) else None
         | TLBrace \<Rightarrow> if wants_value m then Some (MKeyFirst, FDict [] # st) else None
         | TAtom v \<Rightarrow>
             if wants_value m then deliver v st
             else if wants_key m then
               (case (v, st) of
                  (PyStr k, FDict ps # st') \<Rightarrow> Some (MColon, FPair ps k # st')
                | _ \<Rightarrow> None)
             else None
         | TColon \<Rightarrow> (case m of MColon \<Rightarrow> Some (MValue, st) | _ \<Rightarrow> None)
         | TComma \<Rightarrow>
             (case (m, st) of
                (MAfter, FList vs # st') \<Rightarrow> Some (MValue, st)
              | (MAfter, FDict ps # st') \<Rightarrow> Some (MKey, st)
              | _ \<Rightarrow> None)
         | TRBrack \<Rightarrow>
             (case (m, st) of
                (MFirst, FList vs # st') \<Rightarrow> deliver (PyList vs) st'
              | (MAfter, FList vs # st') \<Rightarrow> deliver (PyList vs) st'
              | _ \<Rightarrow> None)
         | TRBrace \<Rightarrow>
             (case (m, st) of
                (MKeyFirst, FDict ps # st') \<Rightarrow> deliver (PyDict ps) st'
              | (MAfter, FDict ps # st') \<Rightarrow> deliver (PyDict ps) st'
              | _ \<Rightarrow> None)))"

fun run :: "token list \<Rightarrow> mode \<times> frame list \<Rightarrow> pyval option" where
  "run [] s = (case s of (MDone v, st) \<Rightarrow> Some v | _ \<Rightarrow> None)"
| "run (t # ts) s = (case step t s of None \<Rightarrow> None | Some s' \<Rightarrow> run ts s')"

text \<open>\<open>json.loads(s)\<close>\<close>

definition json_loads :: "string \<Rightarrow> pyexn + pyval" where
  "json_loads s =
     (case lex s of
        None \<Rightarrow> Inl JSONDecodeError
      | Some ts \<Rightarrow>
          (case run ts (MValue, []) of
             None \<Rightarrow> Inl JSONDecodeError
           | Some v \<Rightarrow> Inr v))"

section \<open>Decision function\<close>

definition ALLOWED_ACTIONS :: "string set" where
  "ALLOWED_ACTIONS = {''retrieve_and_answer'', ''classify_only'', ''refuse''}"

text \<open>
  \<open>obj.get(key, default)\<close>: only a dict has the attribute \<open>get\<close>; on every other decoded
  value the attribute lookup raises \<open>AttributeError\<close>.
\<close>

fun py_get :: "pyval \<Rightarrow> ustr \<Rightarrow> pyval \<Rightarrow> pyexn + pyval" where
  "py_get (PyDict ps) key dflt =
     Inr (case map_of (rev ps) key of None \<Rightarrow> dflt | Some v \<Rightarrow> v)"
| "py_get obj key dflt = Inl AttributeError"

text \<open>A list and a dict have no hash.\<close>

fun hashable :: "pyval \<Rightarrow> bool" where
  "hashable (PyList vs) = False"
| "hashable (PyDict ps) = False"
| "hashable v = True"

text \<open>
  \<open>x in S\<close> for a set \<open>S\<close> of strings: the value is hashed first, which raises
  \<open>TypeError\<close> when it has no hash; a value that is not a string equals none of the
  members.
\<close>

definition in_set :: "pyval \<Rightarrow> string set \<Rightarrow> pyexn + bool" where
  "in_set x S =
     (if \<not> hashable x then Inl TypeError
      else Inr (case x of PyStr u \<Rightarrow> u \<in> ustr ` S | _ \<Rightarrow> False))"

definition build_prompt :: "string \<Rightarrow> string" where
  \<open>build_prompt user_input =
     ''Choose exactly one action: retrieve_and_answer, classify_only, refuse'' @ [CHR 0x0A] @
     ''Return ONLY valid JSON: {"action": "<action>"}'' @ [CHR 0x0A] @
     ''User input: '' @ user_input\<close>

text \<open>
  \<open>decide_action\<close>; \<open>llm_chat\<close> is the \<open>chat\<close> method of the client.  \<open>attempt\<close> is the body
  of the \<open>try\<close>, \<open>caught\<close> the state behind the \<open>except\<close> clause, which handles
  \<open>JSONDecodeError\<close> and \<open>AttributeError\<close> and lets any other exception pass.
\<close>

definition decide_action :: "(string \<Rightarrow> string) \<Rightarrow> string \<Rightarrow> pyexn + pyval" where
  "decide_action llm_chat user_input =
     (let prompt = build_prompt user_input;
          raw = llm_chat prompt;
          attempt = (case json_loads raw of
                       Inl e \<Rightarrow> Inl e
                     | Inr obj \<Rightarrow> py_get obj (ustr ''action'') (PyStr (ustr ''refuse'')));
          caught = (case attempt of
                      Inl JSONDecodeError \<Rightarrow> Inr (PyStr (ustr ''refuse''))
                    | Inl AttributeError \<Rightarrow> Inr (PyStr (ustr ''refuse''))
                    | Inl TypeError \<Rightarrow> Inl TypeError
                    | Inr action \<Rightarrow> Inr action)
      in case caught of
           Inl e \<Rightarrow> Inl e
         | Inr action \<Rightarrow>
             (case in_set action ALLOWED_ACTIONS of
                Inl e \<Rightarrow> Inl e
              | Inr member \<Rightarrow> Inr (if \<not> member then PyStr (ustr ''refuse'') else action)))"

section \<open>The specification's wording\<close>

text \<open>
  The chooser's selection rule as the specification words it, on the lower-cased text:
  any of rate, inflation, monetary selects \<open>retrieve_and_answer\<close>; otherwise any of
  classify, label, topic selects \<open>classify_only\<close>; otherwise \<open>refuse\<close>.
\<close>

definition selection_rule :: "string \<Rightarrow> string" where
  \<open>selection_rule text =
     (if contains ''rate'' text \<or> contains ''inflation'' text \<or> contains ''monetary'' text
      then ''{"action": "retrieve_and_answer"}''
      else if contains ''classify'' text \<or> contains ''label'' text \<or> contains ''topic'' text
      then ''{"action": "classify_only"}''
      else ''{"action": "refuse"}'')\<close>

text \<open>The action the selection rule names, without the JSON around it.\<close>

definition selected_action :: "string \<Rightarrow> string" where
  "selected_action text =
     (if contains ''rate'' text \<or> contains ''inflation'' text \<or> contains ''monetary'' text
      then ''retrieve_and_answer''
      else if contains ''classify'' text \<or> contains ''label'' text \<or> contains ''topic'' text
      then ''classify_only''
      else ''refuse'')"


section \<open>Facts about the string operations\<close>

lemma contains_iff: "contains sub s \<longleftrightarrow> (\<exists>pre post. s = pre @ sub @ post)"
proof (induction s)
  case Nil
  then show ?case by auto
next
  case (Cons c cs)
  show ?case
  proof
    assume "contains sub (c # cs)"
    then consider "prefix sub (c # cs)" | "contains sub cs" by auto
    then show "\<exists>pre post. c # cs = pre @ sub @ post"
    proof cases
      case 1
      then obtain post where "c # cs = sub @ post" by (auto simp: prefix_def)
      then have "c # cs = [] @ sub @ post" by simp
      then show ?thesis by blast
    next
      case 2
      with Cons.IH obtain pre post where "cs = pre @ sub @ post" by blast
      then have "c # cs = (c # pre) @ sub @ post" by simp
      then show ?thesis by blast
    qed
  next
    assume "\<exists>pre post. c # cs = pre @ sub @ post"
    then obtain pre post where eq: "c # cs = pre @ sub @ post" by blast
    show "contains sub (c # cs)"
    proof (cases pre)
      case Nil
      with eq have "prefix sub (c # cs)" by (simp add: prefix_def)
      then show ?thesis by simp
    next
      case (Cons d pre')
      with eq have "cs = pre' @ sub @ post" by simp
      with Cons.IH have "contains sub cs" by blast
      then show ?thesis by simp
    qed
  qed
qed

lemma split_from_not_Nil: "split_from sep piece s \<noteq> []"
  by (induction sep piece s rule: split_from.induct) auto

lemma split_from_no_match:
  "\<not> contains sep s \<Longrightarrow> split_from sep piece s = [piece @ s]"
  by (induction sep piece s rule: split_from.induct) auto

lemma prefix_overlap:
  assumes ne: "sep \<noteq> []" and fresh: "hd sep \<notin> set (tl sep)"
    and pre: "prefix sep (pre @ sep @ rest)" and "pre \<noteq> []"
  shows "length sep \<le> length pre"
proof (rule ccontr)
  assume "\<not> length sep \<le> length pre"
  then have lt: "length pre < length sep" by simp
  from \<open>pre \<noteq> []\<close> have pos: "0 < length pre" by simp
  have "(pre @ sep @ rest) ! length pre = hd sep"
    using ne by (simp add: nth_append hd_conv_nth)
  moreover have "(pre @ sep @ rest) ! length pre = sep ! length pre"
  proof -
    from pre obtain zs where zs: "pre @ sep @ rest = sep @ zs" by (auto simp: prefix_def)
    have "(sep @ zs) ! length pre = sep ! length pre" using lt by (simp add: nth_append)
    then show ?thesis by (simp only: zs)
  qed
  ultimately have "sep ! length pre = hd sep" by simp
  moreover have "sep ! length pre \<in> set (tl sep)"
  proof -
    from pos obtain k where k: "length pre = Suc k" by (cases "length pre") auto
    from ne obtain a sep' where sep: "sep = a # sep'" by (cases sep) auto
    from lt k sep have "k < length sep'" by simp
    then have "sep' ! k \<in> set sep'" by (rule nth_mem)
    then show ?thesis by (simp add: k sep)
  qed
  ultimately show False using fresh by simp
qed

lemma last_split_from:
  assumes ne: "sep \<noteq> []" and fresh: "hd sep \<notin> set (tl sep)"
    and last_occ: "\<not> contains sep rest"
  shows "last (split_from sep piece (pre @ sep @ rest)) = rest"
proof (induction "length pre" arbitrary: pre piece rule: less_induct)
  case less
  show ?case
  proof (cases pre)
    case Nil
    from ne obtain a sep' where sep: "sep = a # sep'" by (cases sep) auto
    have "split_from sep piece (sep @ rest) = piece # split_from sep [] rest"
      by (simp add: sep)
    also have "split_from sep [] rest = [rest]"
      using last_occ by (simp add: split_from_no_match)
    finally show ?thesis using Nil by simp
  next
    case (Cons c pre')
    show ?thesis
    proof (cases "prefix sep (pre @ sep @ rest)")
      case True
      with ne fresh Cons have len: "length sep \<le> length pre"
        by (intro prefix_overlap[where rest = rest]) auto
      define pre2 where "pre2 = drop (length sep - 1) pre'"
      from len Cons ne have d: "drop (length sep - 1) (pre' @ sep @ rest) = pre2 @ sep @ rest"
        by (simp add: pre2_def)
      have shorter: "length pre2 < length pre" by (simp add: pre2_def Cons)
      have "split_from sep piece (c # (pre' @ sep @ rest))
              = piece # split_from sep [] (drop (length sep - 1) (pre' @ sep @ rest))"
        using True ne by (simp add: Cons)
      then have "split_from sep piece (pre @ sep @ rest)
              = piece # split_from sep [] (pre2 @ sep @ rest)"
        by (simp only: d Cons append_Cons)
      then have "last (split_from sep piece (pre @ sep @ rest))
              = last (split_from sep [] (pre2 @ sep @ rest))"
        by (simp add: split_from_not_Nil)
      also have "\<dots> = rest" using less[OF shorter] .
      finally show ?thesis .
    next
      case False
      then have "split_from sep piece (pre @ sep @ rest)
              = split_from sep (piece @ [c]) (pre' @ sep @ rest)"
        by (simp add: Cons)
      moreover have "length pre' < length pre" by (simp add: Cons)
      ultimately show ?thesis using less by simp
    qed
  qed
qed

lemma user_part_marker:
  "\<not> contains USER_MARKER rest \<Longrightarrow> user_part (pre @ USER_MARKER @ rest) = lower rest"
proof -
  assume a: "\<not> contains USER_MARKER rest"
  have "contains USER_MARKER (pre @ USER_MARKER @ rest)"
    unfolding contains_iff by blast
  moreover have "last (str_split (pre @ USER_MARKER @ rest) USER_MARKER) = rest"
    unfolding str_split_def
    by (rule last_split_from[OF _ _ a]) (simp_all add: USER_MARKER_def)
  ultimately show ?thesis by (simp add: user_part_def)
qed

lemma user_part_no_marker:
  "\<not> contains USER_MARKER prompt \<Longrightarrow> user_part prompt = lower prompt"
  by (simp add: user_part_def)

lemma contains_lower_iff:
  "contains kw (lower text) \<longleftrightarrow> (\<exists>u. contains u text \<and> lower u = kw)"
proof
  assume "contains kw (lower text)"
  then obtain pre post where "map lower_char text = pre @ kw @ post"
    by (auto simp: contains_iff lower_def)
  then obtain a vs where t: "text = a @ vs" and "kw @ post = map lower_char vs"
    unfolding map_eq_append_conv by blast
  then obtain b c where "vs = b @ c" and "kw = map lower_char b"
    unfolding append_eq_map_conv by blast
  with t have "text = a @ b @ c" and "lower b = kw"
    by (simp_all add: lower_def)
  then have "contains b text \<and> lower b = kw"
    unfolding contains_iff by blast
  then show "\<exists>u. contains u text \<and> lower u = kw" by blast
next
  assume "\<exists>u. contains u text \<and> lower u = kw"
  then obtain u a c where "text = a @ u @ c" and "lower u = kw"
    by (auto simp: contains_iff)
  then have "lower text = lower a @ kw @ lower c" by (auto simp: lower_def)
  then show "contains kw (lower text)" unfolding contains_iff by blast
qed

lemma last_occurrence:
  assumes "sep \<noteq> []"
  shows "contains sep s \<Longrightarrow> \<exists>pre rest. s = pre @ sep @ rest \<and> \<not> contains sep rest"
proof (induction "length s" arbitrary: s rule: less_induct)
  case less
  from less.prems obtain pre post where s: "s = pre @ sep @ post"
    by (auto simp: contains_iff)
  show ?case
  proof (cases "contains sep post")
    case False
    with s show ?thesis by blast
  next
    case True
    from assms s have "length post < length s" by simp
    from less.hyps[OF this True] obtain pre' rest
      where "post = pre' @ sep @ rest" and r: "\<not> contains sep rest" by blast
    with s have "s = (pre @ sep @ pre') @ sep @ rest" by simp
    with r show ?thesis by blast
  qed
qed

lemma scan_items_first_match:
  "i < length kb \<Longrightarrow> contains (fst (kb ! i)) q \<Longrightarrow> \<forall>j<i. \<not> contains (fst (kb ! j)) q \<Longrightarrow>
   scan_items kb q = ''Based on retrieved documents: '' @ snd (kb ! i)"
proof (induction kb arbitrary: i)
  case Nil
  then show ?case by simp
next
  case (Cons item kb)
  obtain keyword answer where item: "item = (keyword, answer)" by (cases item)
  show ?case
  proof (cases i)
    case 0
    with Cons.prems item show ?thesis by simp
  next
    case (Suc i')
    with Cons.prems have "\<not> contains keyword q" using item by fastforce
    moreover from Cons.prems Suc have "i' < length kb" "contains (fst (kb ! i')) q" by simp_all
    moreover from Cons.prems Suc have "\<forall>j<i'. \<not> contains (fst (kb ! j)) q" by fastforce
    ultimately show ?thesis using Cons.IH[of i'] item Suc by simp
  qed
qed

lemma scan_items_no_match:
  "\<forall>i<length kb. \<not> contains (fst (kb ! i)) q \<Longrightarrow>
   scan_items kb q = ''Based on retrieved documents: No relevant information found.''"
proof (induction kb)
  case Nil
  then show ?case by simp
next
  case (Cons item kb)
  obtain keyword answer where item: "item = (keyword, answer)" by (cases item)
  from Cons.prems have "\<not> contains keyword q" using item by fastforce
  moreover from Cons.prems have "\<forall>i<length kb. \<not> contains (fst (kb ! i)) q" by fastforce
  ultimately show ?case using Cons.IH item by simp
qed

lemma json_loads_only_decode_error: "json_loads s = Inl e \<Longrightarrow> e = JSONDecodeError"
  by (auto simp: json_loads_def split: option.splits)

lemma in_set_hashable: "hashable v \<Longrightarrow> \<exists>b. in_set v S = Inr b"
  by (simp add: in_set_def)

lemma in_set_unhashable: "\<not> hashable v \<Longrightarrow> in_set v S = Inl TypeError"
  by (simp add: in_set_def)

lemma in_set_True: "in_set v S = Inr True \<Longrightarrow> \<exists>a\<in>S. v = PyStr (ustr a)"
  by (cases v) (auto simp: in_set_def split: if_splits)


lemma decide_action_after_try:
  "decide_action llm_chat user_input =
     (case (case json_loads (llm_chat (build_prompt user_input)) of
              Inl e \<Rightarrow> PyStr (ustr ''refuse'')
            | Inr (PyDict ps) \<Rightarrow>
                (case map_of (rev ps) (ustr ''action'') of
                   None \<Rightarrow> PyStr (ustr ''refuse'') | Some v \<Rightarrow> v)
            | Inr obj \<Rightarrow> PyStr (ustr ''refuse'')) of action \<Rightarrow>
        (case in_set action ALLOWED_ACTIONS of
           Inl e \<Rightarrow> Inl e
         | Inr member \<Rightarrow> Inr (if member then action else PyStr (ustr ''refuse''))))"
  by (auto simp: decide_action_def Let_def dest: json_loads_only_decode_error
      split: sum.splits pyexn.splits pyval.splits option.splits)

lemma decide_action_outcomes:
  "decide_action llm_chat user_input = Inl TypeError \<or>
   (\<exists>a\<in>ALLOWED_ACTIONS. decide_action llm_chat user_input = Inr (PyStr (ustr a)))"
proof -
  define action where "action =
    (case json_loads (llm_chat (build_prompt user_input)) of
       Inl e \<Rightarrow> PyStr (ustr ''refuse'')
     | Inr (PyDict ps) \<Rightarrow>
         (case map_of (rev ps) (ustr ''action'') of
            None \<Rightarrow> PyStr (ustr ''refuse'') | Some v \<Rightarrow> v)
     | Inr obj \<Rightarrow> PyStr (ustr ''refuse''))"
  have d: "decide_action llm_chat user_input =
     (case in_set action ALLOWED_ACTIONS of
        Inl e \<Rightarrow> Inl e
      | Inr member \<Rightarrow> Inr (if member then action else PyStr (ustr ''refuse'')))"
    unfolding action_def by (rule decide_action_after_try)
  have r: "''refuse'' \<in> ALLOWED_ACTIONS" by (simp add: ALLOWED_ACTIONS_def)
  show ?thesis
  proof (cases "hashable action")
    case False
    then show ?thesis by (simp add: d in_set_unhashable)
  next
    case True
    then obtain b where b: "in_set action ALLOWED_ACTIONS = Inr b"
      using in_set_hashable by blast
    show ?thesis
    proof (cases b)
      case True
      with b have "in_set action ALLOWED_ACTIONS = Inr True" by simp
      then obtain a where "a \<in> ALLOWED_ACTIONS" "action = PyStr (ustr a)"
        using in_set_True by blast
      with b True show ?thesis by (auto simp: d)
    next
      case False
      with b r show ?thesis by (auto simp: d)
    qed
  qed
qed

lemmas text_eval = lower_def lower_char_def upper_chars_def lower_chars_def any_kw_in_def
  str_split_def USER_MARKER_def user_part_def chat_def RETRIEVE_JSON_def CLASSIFY_JSON_def
  REFUSE_JSON_def

lemmas json_eval = json_loads_def step_def emit_def scan_atom_def match_number_def
  parse_int_def int_of_digits_def digit_val_def is_digit_def whitespace_def more_def ustr_def
  BACKSLASH_def hex_digit_def Let_def

lemma chat_is_selection_rule: "chat prompt = selection_rule (user_part prompt)"
  by (simp add: chat_def selection_rule_def any_kw_in_def RETRIEVE_JSON_def CLASSIFY_JSON_def
      REFUSE_JSON_def)

lemma loads_retrieve:
  "json_loads RETRIEVE_JSON = Inr (PyDict [(ustr ''action'', PyStr (ustr ''retrieve_and_answer''))])"
  by (simp add: RETRIEVE_JSON_def json_eval)

lemma loads_classify:
  "json_loads CLASSIFY_JSON = Inr (PyDict [(ustr ''action'', PyStr (ustr ''classify_only''))])"
  by (simp add: CLASSIFY_JSON_def json_eval)

lemma loads_refuse:
  "json_loads REFUSE_JSON = Inr (PyDict [(ustr ''action'', PyStr (ustr ''refuse''))])"
  by (simp add: REFUSE_JSON_def json_eval)

lemma decide_action_single_action:
  assumes "json_loads (llm_chat (build_prompt user_input)) = Inr (PyDict [(ustr ''action'', PyStr (ustr a))])"
    and "a \<in> ALLOWED_ACTIONS"
  shows "decide_action llm_chat user_input = Inr (PyStr (ustr a))"
  using assms by (simp add: decide_action_after_try in_set_def)

lemma decide_action_refuse_on_unknown_hashable:
  assumes "json_loads (llm_chat (build_prompt user_input)) = Inr (PyDict ps)"
    and "map_of (rev ps) (ustr ''action'') = Some v"
    and "hashable v" and "v \<notin> PyStr ` ustr ` ALLOWED_ACTIONS"
  shows "decide_action llm_chat user_input = Inr (PyStr (ustr ''refuse''))"
  using assms by (cases v) (auto simp: decide_action_after_try in_set_def)

lemma decide_action_raises_iff:
  "decide_action llm_chat user_input = Inl TypeError \<longleftrightarrow>
   (\<exists>ps v. json_loads (llm_chat (build_prompt user_input)) = Inr (PyDict ps) \<and>
      map_of (rev ps) (ustr ''action'') = Some v \<and> \<not> hashable v)"
  by (auto simp: decide_action_after_try in_set_def
      split: sum.splits pyval.splits option.splits if_splits)

lemma user_part_build_prompt:
  assumes "\<not> contains USER_MARKER user_input"
  shows "user_part (build_prompt user_input) = lower user_input"
proof -
  obtain pre where "build_prompt user_input = pre @ USER_MARKER @ user_input"
    by (simp add: build_prompt_def USER_MARKER_def)
  with assms show ?thesis by (simp add: user_part_marker)
qed

section \<open>C1: the decision function absorbs every failure\<close>

text \<open>
  C1 says that for every chooser and every user input \<open>decide_action\<close> returns a member of
  the allowed action set and never raises.  The code does not: when the chooser's reply
  decodes to an object whose \<open>action\<close> is a list, the membership test in the allowed set
  raises \<open>TypeError\<close>, which no handler catches.
\<close>

theorem decide_action_list_action_raises:
  \<open>decide_action (\<lambda>prompt. ''{"action": []}'') ''hello'' = Inl TypeError\<close>
  by (simp add: decide_action_def in_set_def json_eval)

section \<open>C2: a reply that is no JSON object with an action gives refuse\<close>



section \<open>C3: an action outside the allowed set gives refuse\<close>

text \<open>
  C3 says that whenever the reply decodes to an object whose \<open>action\<close> value is not a member
  of the allowed action set, \<open>decide_action\<close> returns \<open>refuse\<close>.  An empty JSON object is such
  a value, and there the code raises \<open>TypeError\<close> instead: the membership test hashes the
  value first, and a dict has no hash.
\<close>

theorem decide_action_dict_action_raises:
  \<open>decide_action (\<lambda>prompt. ''{"action": {}}'') ''hello'' = Inl TypeError\<close>
  by (simp add: decide_action_def in_set_def json_eval)

section \<open>C4: the chooser's selection rule\<close>

text \<open>
  C4: for every prompt, \<open>MockLLMClient.chat\<close> lower-cases the text following the marker
  \<open>User input: \<close> (the whole prompt if the marker is absent) and returns exactly the JSON
  string the selection rule names for that text.  The text following the marker is the
  text behind its last occurrence: a prompt that holds the marker splits there, and every
  such split gives the same reply.
\<close>

theorem chat_selection_rule:
  "(\<not> contains USER_MARKER prompt \<longrightarrow> chat prompt = selection_rule (lower prompt))
   \<and> (contains USER_MARKER prompt \<longrightarrow>
        (\<exists>pre rest. prompt = pre @ USER_MARKER @ rest \<and> \<not> contains USER_MARKER rest))
   \<and> (\<forall>pre rest. prompt = pre @ USER_MARKER @ rest \<and> \<not> contains USER_MARKER rest \<longrightarrow>
        chat prompt = selection_rule (lower rest))"
proof (intro conjI impI allI)
  assume "\<not> contains USER_MARKER prompt"
  then show "chat prompt = selection_rule (lower prompt)"
    by (simp add: chat_is_selection_rule user_part_no_marker)
next
  assume "contains USER_MARKER prompt"
  moreover have "USER_MARKER \<noteq> []" by (simp add: USER_MARKER_def)
  ultimately show "\<exists>pre rest. prompt = pre @ USER_MARKER @ rest \<and> \<not> contains USER_MARKER rest"
    by (rule last_occurrence[rotated])
next
  fix pre rest
  assume "prompt = pre @ USER_MARKER @ rest \<and> \<not> contains USER_MARKER rest"
  then show "chat prompt = selection_rule (lower rest)"
    by (simp add: chat_is_selection_rule user_part_marker)
qed

text \<open>
  C4 at a prompt without the marker, which selects \<open>classify_only\<close>, and at a prompt with
  the marker, which selects \<open>retrieve_and_answer\<close>.
\<close>

theorem chat_selection_rule_witness:
  \<open>\<not> contains USER_MARKER ''Please LABEL this''
   \<and> chat ''Please LABEL this'' = ''{"action": "classify_only"}''
   \<and> contains USER_MARKER ''Pick one. User input: Is the Rate up?''
   \<and> \<not> contains USER_MARKER ''Is the Rate up?''
   \<and> chat ''Pick one. User input: Is the Rate up?'' = ''{"action": "retrieve_and_answer"}''\<close>
proof -
  have a: "\<not> contains USER_MARKER ''Please LABEL this''"
    by (simp add: USER_MARKER_def)
  have b: "\<not> contains USER_MARKER ''Is the Rate up?''"
    by (simp add: USER_MARKER_def)
  have c: "''Pick one. User input: Is the Rate up?'' = ''Pick one. '' @ USER_MARKER @ ''Is the Rate up?''"
    by (simp add: USER_MARKER_def)
  have d: "contains USER_MARKER ''Pick one. User input: Is the Rate up?''"
    unfolding contains_iff using c by blast
  have \<open>selection_rule (lower ''Please LABEL this'') = ''{"action": "classify_only"}''\<close>
    by (simp add: selection_rule_def lower_def lower_char_def upper_chars_def lower_chars_def)
  with a chat_selection_rule[of "''Please LABEL this''"]
  have e: \<open>chat ''Please LABEL this'' = ''{"action": "classify_only"}''\<close> by simp
  have \<open>selection_rule (lower ''Is the Rate up?'') = ''{"action": "retrieve_and_answer"}''\<close>
    by (simp add: selection_rule_def lower_def lower_char_def upper_chars_def lower_chars_def)
  moreover from b c chat_selection_rule[of "''Pick one. User input: Is the Rate up?''"]
  have "chat ''Pick one. User input: Is the Rate up?'' = selection_rule (lower ''Is the Rate up?'')"
    by blast
  ultimately have f: \<open>chat ''Pick one. User input: Is the Rate up?'' = ''{"action": "retrieve_and_answer"}''\<close>
    by simp
  from a b d e f show ?thesis by blast
qed

section \<open>C5: inputs that hold a retrieval keyword\<close>

text \<open>
  C5 says that every input to \<open>MockLLMClient.chat\<close> that contains rate, inflation or
  monetary (in any case) gets the \<open>retrieve_and_answer\<close> reply.  It fails where the keyword
  stands before the marker \<open>User input: \<close>: the chooser looks only at the text behind the
  marker.  The input below contains \<open>rate\<close> and gets the \<open>refuse\<close> reply.
\<close>

theorem chat_keyword_before_marker_counterexample:
  \<open>contains ''rate'' (lower ''rate User input: hello'')
   \<and> chat ''rate User input: hello'' = ''{"action": "refuse"}''
   \<and> chat ''rate User input: hello'' \<noteq> ''{"action": "retrieve_and_answer"}''\<close>
  by (simp add: text_eval)

text \<open>
  The same happens when that input is the user input of \<open>decide_action\<close>: the prompt built
  around it ends with the text behind the user's own marker.
\<close>

lemma chat_built_prompt_keyword_before_marker:
  \<open>chat (build_prompt ''rate User input: hello'') = ''{"action": "refuse"}''\<close>
proof -
  have "\<not> contains USER_MARKER ''hello''"
    by (simp add: USER_MARKER_def)
  moreover obtain pre where "build_prompt ''rate User input: hello'' = pre @ USER_MARKER @ ''hello''"
    by (simp add: build_prompt_def USER_MARKER_def)
  ultimately have "user_part (build_prompt ''rate User input: hello'') = lower ''hello''"
    by (simp add: user_part_marker)
  then show ?thesis
    by (simp add: chat_is_selection_rule selection_rule_def lower_def lower_char_def
        upper_chars_def lower_chars_def)
qed

text \<open>
  C5 as amended: if the text behind the last marker \<open>User input: \<close> of the input (the whole
  input if it holds no marker) contains rate, inflation or monetary after lower-casing,
  the chooser returns the string \<open>{"action": "retrieve_and_answer"}\<close>.
\<close>

theorem chat_retrieve_on_user_text_keyword:
  assumes "contains ''rate'' (lower text) \<or> contains ''inflation'' (lower text)
         \<or> contains ''monetary'' (lower text)"
    and "\<not> contains USER_MARKER text"
    and "prompt = text \<or> prompt = pre @ USER_MARKER @ text"
  shows \<open>chat prompt = ''{"action": "retrieve_and_answer"}''\<close>
proof -
  from assms(2,3) have "user_part prompt = lower text"
    by (auto simp: user_part_marker user_part_no_marker)
  with assms(1) show ?thesis
    by (simp add: chat_is_selection_rule selection_rule_def)
qed

text \<open>C5 as amended, at the prompt \<open>decide_action\<close> builds for a question on inflation.\<close>

theorem chat_retrieve_on_user_text_keyword_witness:
  \<open>contains ''inflation'' (lower ''Is INFLATION falling?'')
   \<and> \<not> contains USER_MARKER ''Is INFLATION falling?''
   \<and> chat (build_prompt ''Is INFLATION falling?'') = ''{"action": "retrieve_and_answer"}''\<close>
proof -
  have a: "contains ''inflation'' (lower ''Is INFLATION falling?'')"
    by (simp add: lower_def lower_char_def upper_chars_def lower_chars_def)
  have b: "\<not> contains USER_MARKER ''Is INFLATION falling?''"
    by (simp add: USER_MARKER_def)
  obtain pre where c: "build_prompt ''Is INFLATION falling?'' = pre @ USER_MARKER @ ''Is INFLATION falling?''"
    by (simp add: build_prompt_def USER_MARKER_def)
  from a b c show ?thesis
    using chat_retrieve_on_user_text_keyword[of "''Is INFLATION falling?''" "build_prompt ''Is INFLATION falling?''" pre]
    by blast
qed

lemma four_way:
  "r = (if g1 then a else if g2 then b else if g3 then c else d) \<Longrightarrow>
   (g1 \<longrightarrow> r = a) \<and> (\<not> g1 \<and> g2 \<longrightarrow> r = b) \<and> (\<not> g1 \<and> \<not> g2 \<and> g3 \<longrightarrow> r = c)
   \<and> (\<not> g1 \<and> \<not> g2 \<and> \<not> g3 \<longrightarrow> r = d) \<and> r \<in> {a, b, c, d}"
  by simp

section \<open>C6: the classifier\<close>

text \<open>
  C6: for every text, \<open>classify_only\<close> returns one of four fixed labels, chosen by the first
  keyword group in priority order that has a keyword occurring in the lower-cased text
  (group 1: rate, inflation, monetary, central bank; group 2: loan, mortgage, lending,
  credit; group 3: stock, equity, market, earning; otherwise out of domain).  A text that
  matches group 1 gets its label whatever else it matches, and
  \<open>classify_only("central bank raised rates")\<close> is the group 1 label.
\<close>

theorem classify_only_priority:
  "(contains ''rate'' (lower text) \<or> contains ''inflation'' (lower text)
      \<or> contains ''monetary'' (lower text) \<or> contains ''central bank'' (lower text)
    \<longrightarrow> classify_only text = ''Topic: Interest Rates & Monetary Policy'')
   \<and> (\<not> (contains ''rate'' (lower text) \<or> contains ''inflation'' (lower text)
          \<or> contains ''monetary'' (lower text) \<or> contains ''central bank'' (lower text))
      \<and> (contains ''loan'' (lower text) \<or> contains ''mortgage'' (lower text)
          \<or> contains ''lending'' (lower text) \<or> contains ''credit'' (lower text))
    \<longrightarrow> classify_only text = ''Topic: Lending & Credit'')
   \<and> (\<not> (contains ''rate'' (lower text) \<or> contains ''inflation'' (lower text)
          \<or> contains ''monetary'' (lower text) \<or> contains ''central bank'' (lower text))
      \<and> \<not> (contains ''loan'' (lower text) \<or> contains ''mortgage'' (lower text)
          \<or> contains ''lending'' (lower text) \<or> contains ''credit'' (lower text))
      \<and> (contains ''stock'' (lower text) \<or> contains ''equity'' (lower text)
          \<or> contains ''market'' (lower text) \<or> contains ''earning'' (lower text))
    \<longrightarrow> classify_only text = ''Topic: Equity Markets'')
   \<and> (\<not> (contains ''rate'' (lower text) \<or> contains ''inflation'' (lower text)
          \<or> contains ''monetary'' (lower text) \<or> contains ''central bank'' (lower text))
      \<and> \<not> (contains ''loan'' (lower text) \<or> contains ''mortgage'' (lower text)
          \<or> contains ''lending'' (lower text) \<or> contains ''credit'' (lower text))
      \<and> \<not> (contains ''stock'' (lower text) \<or> contains ''equity'' (lower text)
          \<or> contains ''market'' (lower text) \<or> contains ''earning'' (lower text))
    \<longrightarrow> classify_only text = ''Topic: Out of Domain'')
   \<and> classify_only text \<in> {''Topic: Interest Rates & Monetary Policy'', ''Topic: Lending & Credit'',
                            ''Topic: Equity Markets'', ''Topic: Out of Domain''}
   \<and> classify_only ''central bank raised rates'' = ''Topic: Interest Rates & Monetary Policy''"
proof -
  have ex: "classify_only ''central bank raised rates'' = ''Topic: Interest Rates & Monetary Policy''"
    by (simp add: classify_only_def any_kw_in_def lower_def lower_char_def upper_chars_def
        lower_chars_def)
  have "classify_only text =
     (if contains ''rate'' (lower text) \<or> contains ''inflation'' (lower text)
         \<or> contains ''monetary'' (lower text) \<or> contains ''central bank'' (lower text)
      then ''Topic: Interest Rates & Monetary Policy''
      else if contains ''loan'' (lower text) \<or> contains ''mortgage'' (lower text)
         \<or> contains ''lending'' (lower text) \<or> contains ''credit'' (lower text)
      then ''Topic: Lending & Credit''
      else if contains ''stock'' (lower text) \<or> contains ''equity'' (lower text)
         \<or> contains ''market'' (lower text) \<or> contains ''earning'' (lower text)
      then ''Topic: Equity Markets''
      else ''Topic: Out of Domain'')"
    unfolding classify_only_def any_kw_in_def Let_def list_ex_Nil_iff list_ex_Cons_iff by (simp only: simp_thms)
  from four_way[OF this] ex show ?thesis by (elim conjE) (intro conjI; assumption)
qed

text \<open>
  C6 at a text with keywords of group 1 and group 2, at one with a keyword of group 2
  only, at one with a keyword of group 3 only and at one with none.
\<close>

theorem classify_only_priority_witness:
  "contains ''rate'' (lower ''Mortgage RATES'') \<and> contains ''mortgage'' (lower ''Mortgage RATES'')
   \<and> classify_only ''Mortgage RATES'' = ''Topic: Interest Rates & Monetary Policy''
   \<and> contains ''loan'' (lower ''my Loan'')
   \<and> classify_only ''my Loan'' = ''Topic: Lending & Credit''
   \<and> contains ''stock'' (lower ''Stock tips'')
   \<and> classify_only ''Stock tips'' = ''Topic: Equity Markets''
   \<and> classify_only ''hello'' = ''Topic: Out of Domain''"
proof -
  note low = lower_def lower_char_def upper_chars_def lower_chars_def
  have a: "contains ''rate'' (lower ''Mortgage RATES'')"
    and b: "contains ''mortgage'' (lower ''Mortgage RATES'')"
    by (simp_all add: low)
  from a classify_only_priority[of "''Mortgage RATES''"]
  have c: "classify_only ''Mortgage RATES'' = ''Topic: Interest Rates & Monetary Policy''"
    by blast
  have d: "contains ''loan'' (lower ''my Loan'')"
    and "\<not> (contains ''rate'' (lower ''my Loan'') \<or> contains ''inflation'' (lower ''my Loan'')
          \<or> contains ''monetary'' (lower ''my Loan'') \<or> contains ''central bank'' (lower ''my Loan''))"
    by (simp_all add: low)
  with classify_only_priority[of "''my Loan''"]
  have e: "classify_only ''my Loan'' = ''Topic: Lending & Credit''"
    by blast
  have f: "contains ''stock'' (lower ''Stock tips'')"
    and "\<not> (contains ''rate'' (lower ''Stock tips'') \<or> contains ''inflation'' (lower ''Stock tips'')
          \<or> contains ''monetary'' (lower ''Stock tips'') \<or> contains ''central bank'' (lower ''Stock tips''))"
    and "\<not> (contains ''loan'' (lower ''Stock tips'') \<or> contains ''mortgage'' (lower ''Stock tips'')
          \<or> contains ''lending'' (lower ''Stock tips'') \<or> contains ''credit'' (lower ''Stock tips''))"
    by (simp_all add: low)
  with classify_only_priority[of "''Stock tips''"]
  have g: "classify_only ''Stock tips'' = ''Topic: Equity Markets''"
    by blast
  have "\<not> (contains ''rate'' (lower ''hello'') \<or> contains ''inflation'' (lower ''hello'')
          \<or> contains ''monetary'' (lower ''hello'') \<or> contains ''central bank'' (lower ''hello''))"
    and "\<not> (contains ''loan'' (lower ''hello'') \<or> contains ''mortgage'' (lower ''hello'')
          \<or> contains ''lending'' (lower ''hello'') \<or> contains ''credit'' (lower ''hello''))"
    and "\<not> (contains ''stock'' (lower ''hello'') \<or> contains ''equity'' (lower ''hello'')
          \<or> contains ''market'' (lower ''hello'') \<or> contains ''earning'' (lower ''hello''))"
    by (simp_all add: low)
  with classify_only_priority[of "''hello''"]
  have h: "classify_only ''hello'' = ''Topic: Out of Domain''"
    by blast
  from a b c d e f g h show ?thesis by blast
qed

section \<open>C7: retrieval from the knowledge base\<close>

text \<open>
  C7: for every question, \<open>retrieve_and_answer\<close> goes through the five entries of the
  knowledge base in insertion order (rate, inflation, mortgage, loan, monetary) and
  returns the answer of the first entry whose keyword occurs in the lower-cased question,
  behind the prefix \<open>Based on retrieved documents: \<close>; if no keyword occurs, it returns
  \<open>Based on retrieved documents: No relevant information found.\<close>; the question
  \<open>What about mortgage trends?\<close> gets the answer of the mortgage entry.
\<close>

theorem retrieve_and_answer_first_match:
  "map fst KNOWLEDGE_BASE = [''rate'', ''inflation'', ''mortgage'', ''loan'', ''monetary'']
   \<and> (\<forall>i<length KNOWLEDGE_BASE.
         contains (fst (KNOWLEDGE_BASE ! i)) (lower question)
         \<and> (\<forall>j<i. \<not> contains (fst (KNOWLEDGE_BASE ! j)) (lower question))
         \<longrightarrow> retrieve_and_answer question
               = ''Based on retrieved documents: '' @ snd (KNOWLEDGE_BASE ! i))
   \<and> ((\<forall>i<length KNOWLEDGE_BASE. \<not> contains (fst (KNOWLEDGE_BASE ! i)) (lower question))
        \<longrightarrow> retrieve_and_answer question
              = ''Based on retrieved documents: No relevant information found.'')
   \<and> retrieve_and_answer ''What about mortgage trends?''
       = ''Based on retrieved documents: Mortgage rates reached a two-decade high, causing home sales to decline 15%.''"
proof (intro conjI allI impI)
  show "map fst KNOWLEDGE_BASE = [''rate'', ''inflation'', ''mortgage'', ''loan'', ''monetary'']"
    by (simp add: KNOWLEDGE_BASE_def)
next
  fix i
  assume "i < length KNOWLEDGE_BASE"
    and "contains (fst (KNOWLEDGE_BASE ! i)) (lower question)
         \<and> (\<forall>j<i. \<not> contains (fst (KNOWLEDGE_BASE ! j)) (lower question))"
  then show "retrieve_and_answer question
             = ''Based on retrieved documents: '' @ snd (KNOWLEDGE_BASE ! i)"
    unfolding retrieve_and_answer_def by (intro scan_items_first_match) blast+
next
  assume "\<forall>i<length KNOWLEDGE_BASE. \<not> contains (fst (KNOWLEDGE_BASE ! i)) (lower question)"
  then show "retrieve_and_answer question
             = ''Based on retrieved documents: No relevant information found.''"
    unfolding retrieve_and_answer_def by (rule scan_items_no_match)
next
  show "retrieve_and_answer ''What about mortgage trends?''
        = ''Based on retrieved documents: Mortgage rates reached a two-decade high, causing home sales to decline 15%.''"
    by (simp add: retrieve_and_answer_def KNOWLEDGE_BASE_def lower_def lower_char_def
        upper_chars_def lower_chars_def)
qed

text \<open>
  C7 at a question in which the keywords of the first and of the fourth entry occur (the
  first entry wins) and at a question in which none occurs.
\<close>

theorem retrieve_and_answer_first_match_witness:
  "contains ''rate'' (lower ''Is the LOAN rate up?'')
   \<and> contains ''loan'' (lower ''Is the LOAN rate up?'')
   \<and> retrieve_and_answer ''Is the LOAN rate up?''
       = ''Based on retrieved documents: The central bank raised interest rates by 25 basis points to combat persistent inflation.''
   \<and> retrieve_and_answer ''unrelated topic''
       = ''Based on retrieved documents: No relevant information found.''"
proof -
  note low = lower_def lower_char_def upper_chars_def lower_chars_def
  have len: "length KNOWLEDGE_BASE = 5" by (simp add: KNOWLEDGE_BASE_def)
  have a: "contains ''rate'' (lower ''Is the LOAN rate up?'')"
    and b: "contains ''loan'' (lower ''Is the LOAN rate up?'')"
    by (simp_all add: low)
  have k0: "KNOWLEDGE_BASE ! 0 = (''rate'', ''The central bank raised interest rates by 25 basis points to combat persistent inflation.'')"
    by (simp add: KNOWLEDGE_BASE_def)
  have "0 < length KNOWLEDGE_BASE
        \<and> contains (fst (KNOWLEDGE_BASE ! 0)) (lower ''Is the LOAN rate up?'')
        \<and> (\<forall>j<0. \<not> contains (fst (KNOWLEDGE_BASE ! j)) (lower ''Is the LOAN rate up?''))"
    using a by (simp add: len k0)
  with retrieve_and_answer_first_match[of "''Is the LOAN rate up?''"]
  have "retrieve_and_answer ''Is the LOAN rate up?''
        = ''Based on retrieved documents: '' @ snd (KNOWLEDGE_BASE ! 0)"
    by blast
  then have c: "retrieve_and_answer ''Is the LOAN rate up?''
       = ''Based on retrieved documents: The central bank raised interest rates by 25 basis points to combat persistent inflation.''"
    by (simp add: k0)
  have "\<forall>kw \<in> set (map fst KNOWLEDGE_BASE). \<not> contains kw (lower ''unrelated topic'')"
    by (simp add: KNOWLEDGE_BASE_def low)
  then have "\<forall>i<length KNOWLEDGE_BASE. \<not> contains (fst (KNOWLEDGE_BASE ! i)) (lower ''unrelated topic'')"
    by (metis nth_map nth_mem length_map)
  with retrieve_and_answer_first_match[of "''unrelated topic''"]
  have d: "retrieve_and_answer ''unrelated topic''
       = ''Based on retrieved documents: No relevant information found.''"
    by blast
  from a b c d show ?thesis by blast
qed

section \<open>C8: the refusal text\<close>

text \<open>
  C8: \<open>refuse()\<close> takes no input and returns the fixed string
  \<open>Refused: I am not authorised to act on this request.\<close> on every call, so any two calls
  return the same value.
\<close>

theorem refuse_fixed_text:
  "refuse () = ''Refused: I am not authorised to act on this request.''
   \<and> (\<forall>call1 call2. refuse call1 = refuse call2)"
  by (simp add: refuse_def REFUSAL_TEXT_def)

section \<open>C9: the mock client never triggers a fallback\<close>

text \<open>
  C9: for every prompt, \<open>MockLLMClient.chat\<close> returns one of three literal strings; each
  is well-formed JSON for an object whose \<open>action\<close> is in the allowed action set; so for
  every user input \<open>decide_action\<close> with a \<open>MockLLMClient\<close> takes neither fallback (the reply
  decodes to an object with an \<open>action\<close> field, and the membership test succeeds) and
  returns the action that the chooser's keyword rule selects.
\<close>

theorem mock_client_never_falls_back:
  \<open>(chat prompt = ''{"action": "retrieve_and_answer"}''
      \<or> chat prompt = ''{"action": "classify_only"}''
      \<or> chat prompt = ''{"action": "refuse"}'')
   \<and> json_loads ''{"action": "retrieve_and_answer"}''
       = Inr (PyDict [(ustr ''action'', PyStr (ustr ''retrieve_and_answer''))])
   \<and> json_loads ''{"action": "classify_only"}''
       = Inr (PyDict [(ustr ''action'', PyStr (ustr ''classify_only''))])
   \<and> json_loads ''{"action": "refuse"}''
       = Inr (PyDict [(ustr ''action'', PyStr (ustr ''refuse''))])
   \<and> ALLOWED_ACTIONS = {''retrieve_and_answer'', ''classify_only'', ''refuse''}
   \<and> json_loads (chat (build_prompt user_input))
       = Inr (PyDict [(ustr ''action'',
                       PyStr (ustr (selected_action (user_part (build_prompt user_input)))))])
   \<and> py_get (PyDict [(ustr ''action'',
                       PyStr (ustr (selected_action (user_part (build_prompt user_input)))))])
         (ustr ''action'') (PyStr (ustr ''refuse''))
       = Inr (PyStr (ustr (selected_action (user_part (build_prompt user_input)))))
   \<and> in_set (PyStr (ustr (selected_action (user_part (build_prompt user_input))))) ALLOWED_ACTIONS
       = Inr True
   \<and> decide_action chat user_input
       = Inr (PyStr (ustr (selected_action (user_part (build_prompt user_input)))))\<close>
proof -
  let ?t = "user_part (build_prompt user_input)"
  have three: \<open>chat prompt = ''{"action": "retrieve_and_answer"}''
      \<or> chat prompt = ''{"action": "classify_only"}''
      \<or> chat prompt = ''{"action": "refuse"}''\<close>
    by (simp add: chat_def RETRIEVE_JSON_def CLASSIFY_JSON_def REFUSE_JSON_def)
  have sel: "selected_action ?t \<in> ALLOWED_ACTIONS"
    by (simp add: selected_action_def ALLOWED_ACTIONS_def)
  have loads: "json_loads (chat (build_prompt user_input))
       = Inr (PyDict [(ustr ''action'', PyStr (ustr (selected_action ?t)))])"
    using loads_retrieve loads_classify loads_refuse
    by (simp add: chat_def any_kw_in_def selected_action_def)
  have get: "py_get (PyDict [(ustr ''action'', PyStr (ustr (selected_action ?t)))])
         (ustr ''action'') (PyStr (ustr ''refuse'')) = Inr (PyStr (ustr (selected_action ?t)))"
    by simp
  have mem: "in_set (PyStr (ustr (selected_action ?t))) ALLOWED_ACTIONS = Inr True"
    using sel by (simp add: in_set_def)
  have dec: "decide_action chat user_input = Inr (PyStr (ustr (selected_action ?t)))"
    using loads sel by (rule decide_action_single_action)
  from three loads_retrieve loads_classify loads_refuse get mem dec loads
  show ?thesis
    by (simp only: RETRIEVE_JSON_def CLASSIFY_JSON_def REFUSE_JSON_def ALLOWED_ACTIONS_def
        simp_thms)
qed

section \<open>C10: several markers in one prompt\<close>

text \<open>
  C10: when the marker \<open>User input: \<close> occurs in the prompt, also more than once, only the
  text behind its last occurrence is used for the selection; what stands before the last
  occurrence does not change the reply, so a prompt with \<open>rate\<close> before a final marker that
  is followed by neutral text gets the \<open>refuse\<close> reply.
\<close>

theorem chat_uses_text_after_last_marker:
  assumes "\<not> contains USER_MARKER rest"
  shows "user_part (pre @ USER_MARKER @ rest) = lower rest
       \<and> chat (pre @ USER_MARKER @ rest) = chat rest
       \<and> chat (pre @ USER_MARKER @ rest) = chat (pre' @ USER_MARKER @ rest)"
  using assms by (simp add: chat_def user_part_marker user_part_no_marker)

text \<open>
  C10 at a prompt with two markers: the question about the rate stands behind the first
  marker, the neutral text behind the second.
\<close>

theorem chat_uses_text_after_last_marker_witness:
  \<open>\<not> contains USER_MARKER ''hello''
   \<and> contains USER_MARKER ''User input: what is the rate? ''
   \<and> contains ''rate'' (lower (''User input: what is the rate? '' @ USER_MARKER @ ''hello''))
   \<and> chat (''User input: what is the rate? '' @ USER_MARKER @ ''hello'') = ''{"action": "refuse"}''\<close>
proof -
  have a: "\<not> contains USER_MARKER ''hello''"
    and b: "contains USER_MARKER ''User input: what is the rate? ''"
    by (simp_all add: USER_MARKER_def)
  have c: "contains ''rate'' (lower (''User input: what is the rate? '' @ USER_MARKER @ ''hello''))"
    by (simp add: USER_MARKER_def lower_def lower_char_def upper_chars_def lower_chars_def)
  have \<open>chat ''hello'' = ''{"action": "refuse"}''\<close>
    by (simp add: text_eval)
  with chat_uses_text_after_last_marker[OF a, of "''User input: what is the rate? ''"]
  have d: \<open>chat (''User input: what is the rate? '' @ USER_MARKER @ ''hello'') = ''{"action": "refuse"}''\<close>
    by simp
  from a b c d show ?thesis by blast
qed

end
